theory Spec2Isabelle
  imports Main
begin

section \<open>The scene manifest\<close>

text \<open>
  The parsed scene JSON (\<open>oscene\<close> in \<open>SceneLoader.js\<close>). A field that is absent
  (\<open>undefined\<close>) is \<open>None\<close>. The registers are listed in the order of
  \<open>Object.keys\<close>. The loader tests fields for truthiness: a string is truthy when it
  is not empty, an array or an object always is.
\<close>

record mesh_entry =
  m_binary :: "string option"
  m_vertices :: "int list option"

record texture_entry =
  t_image :: "string option"

record entity_desc =
  e_type :: "string option"
  e_id :: "string option"
  e_payload :: string

record manifest =
  mesh_register :: "(string \<times> mesh_entry) list option"
  texture_register :: "(string \<times> texture_entry) list option"
  entity_list :: "entity_desc list option"

definition truthy :: "string option \<Rightarrow> bool" where
  "truthy v = (case v of None \<Rightarrow> False | Some s \<Rightarrow> s \<noteq> [])"

section \<open>Objects, transform results and the calls the loader makes\<close>

datatype entity_kind = GenericEntity | MarkerLineEntity | TextEntity

text \<open>
  The constructors \<open>Mesh\<close>, \<open>Texture\<close> and the three entity classes are imported by
  \<open>SceneLoader.js\<close>; an object is represented by what it was constructed from.
  \<open>Inherited k\<close> is the member \<open>k\<close> of \<open>Object.prototype\<close>, which every object
  literal inherits.
\<close>

datatype obj =
    Mesh_inline mesh_entry
  | Mesh_buffer "nat list"
  | Texture string
  | Entity entity_kind entity_desc
  | Inherited string

datatype resource_type = SCENE | IMAGE | MESH

datatype credential_mode = OMIT | SAME_ORIGIN | INCLUDE

record transform_result =
  tr_url :: string
  tr_credentials :: "credential_mode option"
  tr_headers :: "(string \<times> string) list option"

record fetch_init =
  fi_credentials :: credential_mode
  fi_headers :: "(string \<times> string) list option"

record options =
  opt_transform :: "(string \<Rightarrow> resource_type \<Rightarrow> transform_result) option"

definition defaultTransformCallback :: "string \<Rightarrow> resource_type \<Rightarrow> transform_result" where
  "defaultTransformCallback u ty = \<lparr>tr_url = u, tr_credentials = None, tr_headers = None\<rparr>"

text \<open>
  Every call that leaves the loader is appended to a log, in program order: a network
  request, the abort signal, a call of the scene, the completion callback, a console
  message, and a reaction queued with \<open>Promise.resolve().then\<close>.
\<close>

datatype effect =
    Fetch string fetch_init
  | ImageRequest string "string option"
  | Abort
  | AddLoader nat
  | RemoveLoader nat
  | AddEntity obj
  | Callback bool
  | ConsoleError string
  | Microtask

section \<open>The scene\<close>

record scene =
  entities :: "obj list"
  loaders :: "nat set"

text \<open>
  Modelled from the spec: the class \<open>Scene\<close> is not part of the sources. The spec says
  the scene tracks the set of active loaders and that entities are appended to its entity
  list in order.
\<close>

definition addLoader :: "nat \<Rightarrow> scene \<Rightarrow> scene" where
  "addLoader l sc = sc\<lparr>loaders := insert l (loaders sc)\<rparr>"

definition removeLoader :: "nat \<Rightarrow> scene \<Rightarrow> scene" where
  "removeLoader l sc = sc\<lparr>loaders := loaders sc - {l}\<rparr>"

definition addEntity :: "obj \<Rightarrow> scene \<Rightarrow> scene" where
  "addEntity e sc = sc\<lparr>entities := entities sc @ [e]\<rparr>"

section \<open>The loader state\<close>

text \<open>
  Position of the manifest promise chain of \<open>_loadFile\<close>: the fetch is outstanding,
  \<open>response.json()\<close> is outstanding, or the chain has ended.
\<close>

datatype mstage = MIdle | MFetch | MBody | MDone

text \<open>
  Position of one sub-resource request. A mesh binary waits for the fetch (\<open>TFetch\<close>),
  then for \<open>response.arrayBuffer()\<close> (\<open>TBody\<close>), then for the trailing \<open>then\<close> of its
  chain (\<open>TSettle\<close>); a texture image waits for \<open>onload\<close> or \<open>onerror\<close> (\<open>TImage\<close>).
\<close>

datatype tstage = TFetch | TBody | TSettle | TImage | TDone

record task =
  t_id :: string
  t_url :: string
  t_stage :: tstage

text \<open>
  \<open>req_count\<close> and \<open>req_ended\<close> are the two properties \<open>_load_object\<close> adds to the
  parsed manifest; a loader parses one manifest, so they are kept beside it.
\<close>

record loader =
  self :: nat
  scene :: scene
  url :: string
  transform :: "string \<Rightarrow> resource_type \<Rightarrow> transform_result"
  references :: "string \<rightharpoonup> obj"
  cancelled :: bool
  finished :: bool
  aborted :: bool
  mstage :: mstage
  oscene :: "manifest option"
  req_count :: int
  req_ended :: bool
  tasks :: "task list"
  microtasks :: nat
  effects :: "effect list"

definition emit :: "effect \<Rightarrow> loader \<Rightarrow> loader" where
  "emit e s = s\<lparr>effects := effects s @ [e]\<rparr>"

definition scene_addLoader :: "loader \<Rightarrow> loader" where
  "scene_addLoader s = emit (AddLoader (self s)) (s\<lparr>scene := addLoader (self s) (scene s)\<rparr>)"

definition scene_removeLoader :: "loader \<Rightarrow> loader" where
  "scene_removeLoader s =
     emit (RemoveLoader (self s)) (s\<lparr>scene := removeLoader (self s) (scene s)\<rparr>)"

definition scene_addEntity :: "obj \<Rightarrow> loader \<Rightarrow> loader" where
  "scene_addEntity e s = emit (AddEntity e) (s\<lparr>scene := addEntity e (scene s)\<rparr>)"

definition callback :: "bool \<Rightarrow> loader \<Rightarrow> loader" where
  "callback isSuccess s = emit (Callback isSuccess) s"

section \<open>The methods of SceneLoader\<close>

text \<open>
  The names are the source's, without the leading underscore of the private methods.
\<close>

definition object_prototype_keys :: "string list" where
  "object_prototype_keys =
     [''constructor'', ''hasOwnProperty'', ''isPrototypeOf'', ''propertyIsEnumerable'',
      ''toLocaleString'', ''toString'', ''valueOf'', ''__proto__'',
      ''__defineGetter__'', ''__defineSetter__'', ''__lookupGetter__'', ''__lookupSetter__'']"

text \<open>
  \<open>this._references\<close> is created by the object literal \<open>{}\<close>, so reading a property
  that is not its own falls back to \<open>Object.prototype\<close>; \<open>undefined\<close> is \<open>None\<close>.
\<close>

definition property_read :: "(string \<rightharpoonup> obj) \<Rightarrow> string \<Rightarrow> obj option" where
  "property_read own k =
     (case own k of
        Some v \<Rightarrow> Some v
      | None \<Rightarrow> if k \<in> set object_prototype_keys then Some (Inherited k) else None)"

text \<open>The result \<open>None\<close> is \<open>null\<close>.\<close>

definition getReference :: "loader \<Rightarrow> string \<Rightarrow> obj option" where
  "getReference s k =
     (let ref = property_read (references s) k
      in if ref \<noteq> None then ref else None)"

definition setReference :: "string \<Rightarrow> obj \<Rightarrow> loader \<Rightarrow> loader" where
  "setReference k item s = s\<lparr>references := (references s)(k \<mapsto> item)\<rparr>"

definition make_fetch_params :: "transform_result \<Rightarrow> fetch_init" where
  "make_fetch_params tr =
     \<lparr>fi_credentials = (case tr_credentials tr of None \<Rightarrow> OMIT | Some c \<Rightarrow> c),
      fi_headers = tr_headers tr\<rparr>"

definition failed_to_retrieve :: "string \<Rightarrow> string" where
  "failed_to_retrieve u = ''mapray: failed to retrieve: '' @ u"

definition cancel_callback :: "loader \<Rightarrow> loader" where
  "cancel_callback s = (if finished s then s else callback False s)"

definition success_callback :: "loader \<Rightarrow> loader" where
  "success_callback s =
     (if cancelled s then s
      else callback True (scene_removeLoader (s\<lparr>finished := True\<rparr>)))"

definition fail_callback :: "string \<Rightarrow> loader \<Rightarrow> loader" where
  "fail_callback msg s =
     (if cancelled s then s
      else callback False
             (scene_removeLoader ((emit (ConsoleError msg) s)\<lparr>finished := True\<rparr>)))"

definition cancel :: "loader \<Rightarrow> loader" where
  "cancel s =
     (if cancelled s then s
      else emit Microtask
             (scene_removeLoader
               ((emit Abort (s\<lparr>aborted := True\<rparr>))\<lparr>cancelled := True\<rparr>)
             \<lparr>microtasks := Suc (microtasks s)\<rparr>))"

definition loadFile :: "loader \<Rightarrow> loader" where
  "loadFile s =
     (let tr = transform s (url s) SCENE
      in emit (Fetch (tr_url tr) (make_fetch_params tr)) (s\<lparr>mstage := MFetch\<rparr>))"

definition SceneLoader :: "nat \<Rightarrow> scene \<Rightarrow> string \<Rightarrow> options \<Rightarrow> loader" where
  "SceneLoader me sc u opts =
     scene_addLoader
       (loadFile
         \<lparr>self = me, scene = sc, url = u,
          transform = (case opt_transform opts of None \<Rightarrow> defaultTransformCallback | Some f \<Rightarrow> f),
          references = Map.empty, cancelled = False, finished = False, aborted = False,
          mstage = MIdle, oscene = None, req_count = 0, req_ended = False,
          tasks = [], microtasks = 0, effects = []\<rparr>)"

subsection \<open>Entities\<close>

definition entity_type :: "entity_desc \<Rightarrow> string" where
  "entity_type item = (if truthy (e_type item) then the (e_type item) else ''generic'')"

definition entity_kind_of :: "string \<Rightarrow> entity_kind option" where
  "entity_kind_of ty =
     (if ty = ''generic'' then Some GenericEntity
      else if ty = ''markerline'' then Some MarkerLineEntity
      else if ty = ''text'' then Some TextEntity
      else None)"

definition load_entity :: "entity_desc \<Rightarrow> loader \<Rightarrow> loader" where
  "load_entity item s =
     (case entity_kind_of (entity_type item) of
        None \<Rightarrow> emit (ConsoleError (''mapray: unknown entity type: '' @ entity_type item)) s
      | Some k \<Rightarrow>
          (let entity = Entity k item;
               s1 = scene_addEntity entity s
           in if truthy (e_id item) then setReference (the (e_id item)) entity s1 else s1))"

fun entity_loop :: "entity_desc list \<Rightarrow> loader \<Rightarrow> loader" where
  "entity_loop [] s = s"
| "entity_loop (item # rest) s = entity_loop rest (load_entity item s)"

definition load_entity_list :: "manifest \<Rightarrow> loader \<Rightarrow> loader" where
  "load_entity_list m s = (case entity_list m of None \<Rightarrow> s | Some l \<Rightarrow> entity_loop l s)"

definition postload_object :: "manifest \<Rightarrow> loader \<Rightarrow> loader" where
  "postload_object m s =
     (if cancelled s then s else success_callback (load_entity_list m s))"

definition postload_object_ifNoReq :: "manifest \<Rightarrow> loader \<Rightarrow> loader" where
  "postload_object_ifNoReq m s =
     (let s1 = s\<lparr>req_count := req_count s - 1\<rparr>
      in if req_count s1 = 0 \<and> req_ended s1 then postload_object m s1 else s1)"

subsection \<open>Registration of meshes and textures\<close>

definition load_mesh_binary :: "string \<Rightarrow> string \<Rightarrow> loader \<Rightarrow> loader" where
  "load_mesh_binary k u s =
     (let tr = transform s u MESH;
          s1 = emit (Fetch (tr_url tr) (make_fetch_params tr)) s;
          s2 = s1\<lparr>tasks := tasks s1 @ [\<lparr>t_id = k, t_url = tr_url tr, t_stage = TFetch\<rparr>]\<rparr>
      in s2\<lparr>req_count := req_count s2 + 1\<rparr>)"

definition load_mesh :: "string \<times> mesh_entry \<Rightarrow> loader \<Rightarrow> loader" where
  "load_mesh p s =
     (let k = fst p; mesh = snd p
      in if truthy (m_binary mesh) then load_mesh_binary k (the (m_binary mesh)) s
         else if m_vertices mesh \<noteq> None then setReference k (Mesh_inline mesh) s
         else s)"

fun mesh_loop :: "(string \<times> mesh_entry) list \<Rightarrow> loader \<Rightarrow> loader" where
  "mesh_loop [] s = s"
| "mesh_loop (p # rest) s = mesh_loop rest (load_mesh p s)"

definition load_mesh_register :: "manifest \<Rightarrow> loader \<Rightarrow> loader" where
  "load_mesh_register m s = (case mesh_register m of None \<Rightarrow> s | Some r \<Rightarrow> mesh_loop r s)"

definition cross_origin :: "transform_result \<Rightarrow> string option" where
  "cross_origin tr =
     (if tr_credentials tr = Some SAME_ORIGIN then Some ''anonymous''
      else if tr_credentials tr = Some INCLUDE then Some ''use-credentials''
      else None)"

definition load_texture_image :: "string \<Rightarrow> string \<Rightarrow> loader \<Rightarrow> loader" where
  "load_texture_image k u s =
     (let tr = transform s u IMAGE;
          s1 = s\<lparr>tasks := tasks s @ [\<lparr>t_id = k, t_url = tr_url tr, t_stage = TImage\<rparr>]\<rparr>;
          s2 = s1\<lparr>req_count := req_count s1 + 1\<rparr>
      in emit (ImageRequest (tr_url tr) (cross_origin tr)) s2)"

definition load_texture :: "string \<times> texture_entry \<Rightarrow> loader \<Rightarrow> loader" where
  "load_texture p s =
     (let k = fst p; texture = snd p
      in if truthy (t_image texture) then load_texture_image k (the (t_image texture)) s
         else s)"

fun texture_loop :: "(string \<times> texture_entry) list \<Rightarrow> loader \<Rightarrow> loader" where
  "texture_loop [] s = s"
| "texture_loop (p # rest) s = texture_loop rest (load_texture p s)"

definition load_texture_register :: "manifest \<Rightarrow> loader \<Rightarrow> loader" where
  "load_texture_register m s =
     (case texture_register m of None \<Rightarrow> s | Some r \<Rightarrow> texture_loop r s)"

definition load_object :: "manifest \<Rightarrow> loader \<Rightarrow> loader" where
  "load_object m s =
     (let s0 = s\<lparr>oscene := Some m, req_count := 0, req_ended := False\<rparr>;
          s1 = load_mesh_register m s0;
          s2 = load_texture_register m s1;
          s3 = (if req_count s2 = 0 then postload_object m s2 else s2)
      in s3\<lparr>req_ended := True\<rparr>)"

section \<open>Events\<close>

text \<open>
  JavaScript runs one handler at a time, to completion. An event is one run of a handler
  of the loader: a call of \<open>cancel()\<close>, the queued reaction of \<open>cancel()\<close>, or a
  reaction of a promise chain or of an image. A rejected promise skips the \<open>then\<close>
  reactions up to the next \<open>catch\<close>, so a rejection is the run of that \<open>catch\<close>; a
  \<open>then\<close> reaction in which \<open>_check_cancel\<close> throws is taken together with the
  \<open>catch\<close> it falls into. Sub-resource requests are numbered in the order of dispatch.
\<close>

datatype event =
    Cancel
  | CancelReaction
  | ManifestResponse
  | ManifestFetchError
  | ManifestJson manifest
  | ManifestJsonError
  | MeshResponse nat
  | MeshFetchError nat
  | MeshBuffer nat "nat list"
  | MeshBufferError nat
  | MeshSettled nat
  | ImageLoad nat
  | ImageError nat

text \<open>\<open>check_cancel\<close> is true when \<open>_check_cancel\<close> throws.\<close>

definition check_cancel :: "loader \<Rightarrow> bool" where
  "check_cancel s = cancelled s"

definition manifest_catch :: "loader \<Rightarrow> loader" where
  "manifest_catch s =
     fail_callback (failed_to_retrieve (tr_url (transform s (url s) SCENE)))
       (s\<lparr>mstage := MDone\<rparr>)"

definition manifest_response :: "loader \<Rightarrow> loader" where
  "manifest_response s = (if check_cancel s then manifest_catch s else s\<lparr>mstage := MBody\<rparr>)"

definition manifest_json :: "manifest \<Rightarrow> loader \<Rightarrow> loader" where
  "manifest_json m s =
     (if check_cancel s then manifest_catch s else load_object m (s\<lparr>mstage := MDone\<rparr>))"

definition set_stage :: "nat \<Rightarrow> tstage \<Rightarrow> loader \<Rightarrow> loader" where
  "set_stage k st s = s\<lparr>tasks := (tasks s)[k := (tasks s ! k)\<lparr>t_stage := st\<rparr>]\<rparr>"

definition stage_at :: "loader \<Rightarrow> nat \<Rightarrow> tstage option" where
  "stage_at s k = (if k < length (tasks s) then Some (t_stage (tasks s ! k)) else None)"

definition mesh_catch :: "nat \<Rightarrow> loader \<Rightarrow> loader" where
  "mesh_catch k s =
     set_stage k TSettle (emit (ConsoleError (failed_to_retrieve (t_url (tasks s ! k)))) s)"

definition mesh_response :: "nat \<Rightarrow> loader \<Rightarrow> loader" where
  "mesh_response k s = (if check_cancel s then mesh_catch k s else set_stage k TBody s)"

definition mesh_buffer :: "nat \<Rightarrow> nat list \<Rightarrow> loader \<Rightarrow> loader" where
  "mesh_buffer k buffer s =
     (if check_cancel s then mesh_catch k s
      else set_stage k TSettle (setReference (t_id (tasks s ! k)) (Mesh_buffer buffer) s))"

definition mesh_settled :: "nat \<Rightarrow> manifest \<Rightarrow> loader \<Rightarrow> loader" where
  "mesh_settled k m s = postload_object_ifNoReq m (set_stage k TDone s)"

definition image_onload :: "nat \<Rightarrow> manifest \<Rightarrow> loader \<Rightarrow> loader" where
  "image_onload k m s =
     (let s1 = (if \<not> cancelled s
                then setReference (t_id (tasks s ! k)) (Texture (t_url (tasks s ! k))) s
                else s)
      in postload_object_ifNoReq m (set_stage k TDone s1))"

definition image_onerror :: "nat \<Rightarrow> manifest \<Rightarrow> loader \<Rightarrow> loader" where
  "image_onerror k m s =
     postload_object_ifNoReq m
       (set_stage k TDone (emit (ConsoleError (failed_to_retrieve (t_url (tasks s ! k)))) s))"

definition with_oscene :: "(manifest \<Rightarrow> loader \<Rightarrow> loader) \<Rightarrow> loader \<Rightarrow> loader" where
  "with_oscene h s = (case oscene s of None \<Rightarrow> s | Some m \<Rightarrow> h m s)"

text \<open>An event that is not enabled in a state leaves the state as it is.\<close>

fun step :: "event \<Rightarrow> loader \<Rightarrow> loader" where
  "step Cancel s = cancel s"
| "step CancelReaction s =
     (if 0 < microtasks s then cancel_callback (s\<lparr>microtasks := microtasks s - 1\<rparr>) else s)"
| "step ManifestResponse s = (if mstage s = MFetch then manifest_response s else s)"
| "step ManifestFetchError s = (if mstage s = MFetch then manifest_catch s else s)"
| "step (ManifestJson m) s = (if mstage s = MBody then manifest_json m s else s)"
| "step ManifestJsonError s = (if mstage s = MBody then manifest_catch s else s)"
| "step (MeshResponse k) s = (if stage_at s k = Some TFetch then mesh_response k s else s)"
| "step (MeshFetchError k) s = (if stage_at s k = Some TFetch then mesh_catch k s else s)"
| "step (MeshBuffer k b) s = (if stage_at s k = Some TBody then mesh_buffer k b s else s)"
| "step (MeshBufferError k) s = (if stage_at s k = Some TBody then mesh_catch k s else s)"
| "step (MeshSettled k) s =
     (if stage_at s k = Some TSettle then with_oscene (mesh_settled k) s else s)"
| "step (ImageLoad k) s =
     (if stage_at s k = Some TImage then with_oscene (image_onload k) s else s)"
| "step (ImageError k) s =
     (if stage_at s k = Some TImage then with_oscene (image_onerror k) s else s)"

fun exec :: "event list \<Rightarrow> loader \<Rightarrow> loader" where
  "exec [] s = s"
| "exec (e # es) s = exec es (step e s)"

text \<open>What the log says: the completion callbacks, and the calls of the scene.\<close>

definition callbacks_of :: "effect list \<Rightarrow> bool list" where
  "callbacks_of es = concat (map (\<lambda>e. case e of Callback b \<Rightarrow> [b] | _ \<Rightarrow> []) es)"

definition removals_of :: "effect list \<Rightarrow> nat" where
  "removals_of es = length (filter (\<lambda>e. case e of RemoveLoader l \<Rightarrow> True | _ \<Rightarrow> False) es)"

definition registrations_of :: "effect list \<Rightarrow> nat" where
  "registrations_of es = length (filter (\<lambda>e. case e of AddLoader l \<Rightarrow> True | _ \<Rightarrow> False) es)"

definition callbacks :: "loader \<Rightarrow> bool list" where
  "callbacks s = callbacks_of (effects s)"

definition removals :: "loader \<Rightarrow> nat" where
  "removals s = removals_of (effects s)"

definition registrations :: "loader \<Rightarrow> nat" where
  "registrations s = registrations_of (effects s)"

text \<open>The requests that have not run their last reaction.\<close>

definition pending :: "task list \<Rightarrow> nat" where
  "pending ts = length (filter (\<lambda>t. t_stage t \<noteq> TDone) ts)"

section \<open>The invariant of the loader\<close>

text \<open>
  \<open>balance\<close> compares the counter with the requests that have not run their last
  reaction; \<open>ctl\<close> collects the parts of the state that registration and entity
  construction leave alone.
\<close>

definition balance :: "loader \<Rightarrow> int" where
  "balance s = req_count s - int (pending (tasks s))"

definition ctl ::
  "loader \<Rightarrow> bool \<times> bool \<times> bool \<times> mstage \<times> nat \<times> nat \<times> string \<times> nat set \<times> bool list \<times> nat \<times> nat \<times>
     manifest option \<times> bool \<times> int" where
  "ctl s = (cancelled s, finished s, aborted s, mstage s, microtasks s, self s, url s,
            loaders (scene s), callbacks_of (effects s), removals_of (effects s),
            registrations_of (effects s), oscene s, req_ended s, balance s)"

text \<open>
  The states a loader can be in. Either it has not finished: it is active, or cancelled
  with the reaction of \<open>cancel()\<close> still queued, or cancelled with that reaction run;
  and the manifest is still being fetched, or its chain ended on a cancellation, or it
  was parsed and requests are outstanding. Or it has finished, by the failure of the
  manifest or by the success of the load, and \<open>cancel()\<close> may have been called
  afterwards.
\<close>

definition loader_inv :: "loader \<Rightarrow> bool" where
  "loader_inv s \<longleftrightarrow>
     registrations s = 1 \<and> aborted s = cancelled s \<and>
     (self s \<in> loaders (scene s)) = (\<not> finished s \<and> \<not> cancelled s) \<and>
     removals s = (if finished s then 1 else 0) + (if cancelled s then 1 else 0) \<and>
     ((\<not> finished s \<and>
       ((\<not> cancelled s \<and> microtasks s = 0 \<and> callbacks s = []) \<or>
        (cancelled s \<and> microtasks s = 1 \<and> callbacks s = []) \<or>
        (cancelled s \<and> microtasks s = 0 \<and> callbacks s = [False])) \<and>
       (((mstage s = MFetch \<or> mstage s = MBody) \<and> oscene s = None \<and> tasks s = []) \<or>
        (mstage s = MDone \<and> oscene s = None \<and> tasks s = [] \<and> cancelled s) \<or>
        (mstage s = MDone \<and> oscene s \<noteq> None \<and> req_ended s \<and> balance s = 0 \<and>
         (cancelled s \<or> req_count s \<noteq> 0)))) \<or>
      (finished s \<and> mstage s = MDone \<and>
       ((\<not> cancelled s \<and> microtasks s = 0) \<or> (cancelled s \<and> microtasks s \<le> 1)) \<and>
       ((oscene s = None \<and> tasks s = [] \<and> callbacks s = [False]) \<or>
        (oscene s \<noteq> None \<and> req_ended s \<and> balance s = 0 \<and> req_count s = 0 \<and>
         callbacks s = [True]))))"

section \<open>Notions used by the properties\<close>




definition is_io :: "effect \<Rightarrow> bool" where
  "is_io e = (case e of Fetch u i \<Rightarrow> True | ImageRequest u c \<Rightarrow> True | _ \<Rightarrow> False)"

definition is_registration :: "effect \<Rightarrow> bool" where
  "is_registration e = (case e of AddLoader l \<Rightarrow> True | _ \<Rightarrow> False)"

definition registers_before_io :: "effect list \<Rightarrow> bool" where
  "registers_before_io es =
     (list_ex is_registration es \<and>
      list_all (\<lambda>e. \<not> is_io e) (takeWhile (\<lambda>e. \<not> is_registration e) es))"

definition empty_scene :: scene where
  "empty_scene = \<lparr>entities = [], loaders = {}\<rparr>"

definition no_options :: options where
  "no_options = \<lparr>opt_transform = None\<rparr>"

definition empty_manifest :: manifest where
  "empty_manifest = \<lparr>mesh_register = None, texture_register = None, entity_list = None\<rparr>"


definition example_loader :: loader where
  "example_loader = SceneLoader 0 empty_scene ''scene.json'' no_options"









text \<open>
  An entry of a register that the loader passes over, the manifest without such entries,
  and a state in which the stored manifest is replaced by the one without them.
\<close>

definition ignored_mesh :: "mesh_entry \<Rightarrow> bool" where
  "ignored_mesh mesh \<longleftrightarrow> \<not> truthy (m_binary mesh) \<and> m_vertices mesh = None"

definition ignored_texture :: "texture_entry \<Rightarrow> bool" where
  "ignored_texture texture \<longleftrightarrow> \<not> truthy (t_image texture)"

definition strip :: "manifest \<Rightarrow> manifest" where
  "strip m =
     m\<lparr>mesh_register := map_option (filter (\<lambda>p. \<not> ignored_mesh (snd p))) (mesh_register m),
       texture_register :=
         map_option (filter (\<lambda>p. \<not> ignored_texture (snd p))) (texture_register m)\<rparr>"

definition strip_event :: "event \<Rightarrow> event" where
  "strip_event e = (case e of ManifestJson m \<Rightarrow> ManifestJson (strip m) | _ \<Rightarrow> e)"

definition forget :: "loader \<Rightarrow> loader" where
  "forget s = s\<lparr>oscene := map_option strip (oscene s)\<rparr>"

section \<open>Lemmas about the primitives and the loops\<close>

lemmas prim_defs = emit_def scene_addLoader_def scene_removeLoader_def scene_addEntity_def
  callback_def setReference_def addLoader_def removeLoader_def addEntity_def

lemmas obs_defs = callbacks_def removals_def registrations_def

lemma callbacks_of_simps [simp]:
  "callbacks_of [] = []"
  "callbacks_of (xs @ ys) = callbacks_of xs @ callbacks_of ys"
  "callbacks_of (e # es) = (case e of Callback b \<Rightarrow> [b] | _ \<Rightarrow> []) @ callbacks_of es"
  by (simp_all add: callbacks_of_def)

lemma removals_of_simps [simp]:
  "removals_of [] = 0"
  "removals_of (xs @ ys) = removals_of xs + removals_of ys"
  "removals_of (e # es) = (case e of RemoveLoader l \<Rightarrow> 1 | _ \<Rightarrow> 0) + removals_of es"
  by (simp_all add: removals_of_def split: effect.splits)

lemma registrations_of_simps [simp]:
  "registrations_of [] = 0"
  "registrations_of (xs @ ys) = registrations_of xs + registrations_of ys"
  "registrations_of (e # es) = (case e of AddLoader l \<Rightarrow> 1 | _ \<Rightarrow> 0) + registrations_of es"
  by (simp_all add: registrations_of_def split: effect.splits)

lemma pending_Nil [simp]: "pending [] = 0"
  by (simp add: pending_def)

lemma balance_upd [simp]:
  "balance (s\<lparr>effects := e\<rparr>) = balance s"
  "balance (s\<lparr>scene := sc\<rparr>) = balance s"
  "balance (s\<lparr>finished := f\<rparr>) = balance s"
  "balance (s\<lparr>cancelled := c\<rparr>) = balance s"
  "balance (s\<lparr>aborted := a\<rparr>) = balance s"
  "balance (s\<lparr>microtasks := n\<rparr>) = balance s"
  "balance (s\<lparr>req_ended := r\<rparr>) = balance s"
  "balance (s\<lparr>mstage := ms\<rparr>) = balance s"
  "balance (s\<lparr>oscene := os\<rparr>) = balance s"
  "balance (s\<lparr>references := rf\<rparr>) = balance s"
  by (simp_all add: balance_def)

lemma load_mesh_ctl: "ctl (load_mesh p s) = ctl s"
  by (simp add: ctl_def load_mesh_def load_mesh_binary_def prim_defs balance_def pending_def Let_def)

lemma mesh_loop_ctl: "ctl (mesh_loop r s) = ctl s"
  by (induction r arbitrary: s) (simp_all add: load_mesh_ctl)

lemma load_texture_ctl: "ctl (load_texture p s) = ctl s"
  by (simp add: ctl_def load_texture_def load_texture_image_def prim_defs balance_def pending_def Let_def)

lemma texture_loop_ctl: "ctl (texture_loop r s) = ctl s"
  by (induction r arbitrary: s) (simp_all add: load_texture_ctl)

lemma load_entity_ctl: "ctl (load_entity d s) = ctl s \<and> req_count (load_entity d s) = req_count s
   \<and> tasks (load_entity d s) = tasks s"
  by (simp add: ctl_def load_entity_def prim_defs balance_def pending_def Let_def split: option.splits)

lemma entity_loop_ctl: "ctl (entity_loop l s) = ctl s \<and> req_count (entity_loop l s) = req_count s
   \<and> tasks (entity_loop l s) = tasks s"
  by (induction l arbitrary: s) (simp_all add: load_entity_ctl)

lemma load_mesh_register_ctl: "ctl (load_mesh_register m s) = ctl s"
  by (simp add: load_mesh_register_def mesh_loop_ctl split: option.splits)

lemma load_texture_register_ctl: "ctl (load_texture_register m s) = ctl s"
  by (simp add: load_texture_register_def texture_loop_ctl split: option.splits)

lemma load_entity_list_ctl: "ctl (load_entity_list m s) = ctl s \<and> req_count (load_entity_list m s) = req_count s
   \<and> tasks (load_entity_list m s) = tasks s"
  by (simp add: load_entity_list_def entity_loop_ctl split: option.splits)

lemmas loop_fields [simp] =
  load_mesh_register_ctl [unfolded ctl_def prod.inject]
  load_texture_register_ctl [unfolded ctl_def prod.inject]
  load_entity_list_ctl [unfolded ctl_def prod.inject]


lemma inv_SceneLoader: "loader_inv (SceneLoader me sc u opts)"
  by (simp add: loader_inv_def SceneLoader_def loadFile_def prim_defs obs_defs Let_def)

lemma inv_cancel: "loader_inv s \<Longrightarrow> loader_inv (cancel s)"
  by (auto simp: loader_inv_def cancel_def prim_defs obs_defs)

lemma inv_cancel_reaction: "loader_inv s \<Longrightarrow> loader_inv (step CancelReaction s)"
  by (auto simp: loader_inv_def cancel_callback_def prim_defs obs_defs)

lemma inv_manifest_catch:
  "loader_inv s \<Longrightarrow> mstage s = MFetch \<or> mstage s = MBody \<Longrightarrow> loader_inv (manifest_catch s)"
  by (auto simp: loader_inv_def manifest_catch_def fail_callback_def prim_defs obs_defs)

lemma inv_manifest_response:
  "loader_inv s \<Longrightarrow> mstage s = MFetch \<Longrightarrow> loader_inv (manifest_response s)"
  by (auto simp: manifest_response_def inv_manifest_catch check_cancel_def)
     (auto simp: loader_inv_def obs_defs)


lemma pending_update:
  "k < length ts \<Longrightarrow>
   pending (ts[k := x]) + (if t_stage (ts ! k) \<noteq> TDone then 1 else 0) =
   pending ts + (if t_stage x \<noteq> TDone then 1 else 0)"
proof (induction ts arbitrary: k)
  case Nil
  then show ?case by simp
next
  case (Cons t ts)
  show ?case
  proof (cases k)
    case 0
    then show ?thesis by (simp add: pending_def)
  next
    case (Suc j)
    with Cons.prems have "j < length ts" by simp
    from Cons.IH [OF this] Suc show ?thesis by (simp add: pending_def)
  qed
qed

lemma stage_atD: "stage_at s k = Some st \<Longrightarrow> k < length (tasks s) \<and> t_stage (tasks s ! k) = st"
  by (simp add: stage_at_def split: if_splits)

lemma pending_set_stage_same:
  assumes "stage_at s k = Some st" "st \<noteq> TDone" "st' \<noteq> TDone"
  shows "pending (tasks (set_stage k st' s)) = pending (tasks s)"
  using pending_update [of k "tasks s" "(tasks s ! k)\<lparr>t_stage := st'\<rparr>"] stage_atD [OF assms(1)] assms
  by (simp add: set_stage_def)

lemma pending_set_stage_done:
  assumes "stage_at s k = Some st" "st \<noteq> TDone"
  shows "int (pending (tasks (set_stage k TDone s))) = int (pending (tasks s)) - 1"
  using pending_update [of k "tasks s" "(tasks s ! k)\<lparr>t_stage := TDone\<rparr>"] stage_atD [OF assms(1)] assms
  by (simp add: set_stage_def)

lemma pending_pos:
  assumes "stage_at s k = Some st" "st \<noteq> TDone"
  shows "0 < pending (tasks s)"
proof -
  from stage_atD [OF assms(1)] assms(2) have "tasks s ! k \<in> set (filter (\<lambda>t. t_stage t \<noteq> TDone) (tasks s))"
    by simp
  then show ?thesis unfolding pending_def by (metis length_pos_if_in_set)
qed

lemma set_stage_fields [simp]:
  "cancelled (set_stage k st s) = cancelled s"
  "finished (set_stage k st s) = finished s"
  "aborted (set_stage k st s) = aborted s"
  "mstage (set_stage k st s) = mstage s"
  "microtasks (set_stage k st s) = microtasks s"
  "self (set_stage k st s) = self s"
  "scene (set_stage k st s) = scene s"
  "effects (set_stage k st s) = effects s"
  "references (set_stage k st s) = references s"
  "oscene (set_stage k st s) = oscene s"
  "req_ended (set_stage k st s) = req_ended s"
  "req_count (set_stage k st s) = req_count s"
  "url (set_stage k st s) = url s"
  "transform (set_stage k st s) = transform s"
  "length (tasks (set_stage k st s)) = length (tasks s)"
  "(tasks (set_stage k st s) = []) = (tasks s = [])"
  by (simp_all add: set_stage_def)

text \<open>A reaction that only moves a request between two unfinished stages.\<close>

lemma inv_move:
  assumes "loader_inv s" "stage_at s k = Some st" "st \<noteq> TDone" "st' \<noteq> TDone"
  shows "loader_inv (set_stage k st' s)"
proof -
  have "balance (set_stage k st' s) = balance s"
    using pending_set_stage_same [OF assms(2-4)] by (simp add: balance_def)
  with assms(1) show ?thesis
    by (simp add: loader_inv_def obs_defs)
qed

lemma inv_setReference [simp]: "loader_inv (setReference i v s) = loader_inv s"
  by (simp add: loader_inv_def setReference_def obs_defs)

lemma inv_console [simp]: "loader_inv (emit (ConsoleError x) s) = loader_inv s"
  by (simp add: loader_inv_def emit_def obs_defs)

lemma stage_at_setReference [simp]: "stage_at (setReference i v s) k = stage_at s k"
  by (simp add: stage_at_def setReference_def)

lemma stage_at_emit [simp]: "stage_at (emit e s) k = stage_at s k"
  by (simp add: stage_at_def emit_def)

lemma oscene_prims [simp]:
  "oscene (setReference i v s) = oscene s" "oscene (emit e s) = oscene s"
  by (simp_all add: setReference_def emit_def)

lemma inv_mesh_catch:
  "loader_inv s \<Longrightarrow> stage_at s k = Some st \<Longrightarrow> st \<noteq> TDone \<Longrightarrow> loader_inv (mesh_catch k s)"
  by (simp add: mesh_catch_def inv_move)

lemma inv_mesh_response:
  "loader_inv s \<Longrightarrow> stage_at s k = Some TFetch \<Longrightarrow> loader_inv (mesh_response k s)"
  by (simp add: mesh_response_def inv_mesh_catch inv_move)

lemma inv_mesh_buffer:
  "loader_inv s \<Longrightarrow> stage_at s k = Some TBody \<Longrightarrow> loader_inv (mesh_buffer k b s)"
  by (simp add: mesh_buffer_def inv_mesh_catch inv_move)

lemma inv_settle:
  assumes "loader_inv s" "stage_at s k = Some st" "st \<noteq> TDone" "oscene s = Some m"
  shows "loader_inv (postload_object_ifNoReq m (set_stage k TDone s))"
proof -
  let ?s1 = "(set_stage k TDone s)\<lparr>req_count := req_count s - 1\<rparr>"
  have b: "balance ?s1 = balance s"
    using pending_set_stage_done [OF assms(2,3)] by (simp add: balance_def)
  have p: "balance s = 0 \<Longrightarrow> req_count s \<noteq> 0"
    using pending_pos [OF assms(2,3)] by (simp add: balance_def)
  have ne: "tasks s \<noteq> []"
    using stage_atD [OF assms(2)] by auto
  show ?thesis
    using assms(1,4) b p ne
    by (auto simp: loader_inv_def postload_object_ifNoReq_def postload_object_def
        success_callback_def Let_def prim_defs obs_defs)
qed

lemma inv_load_object:
  assumes "loader_inv s" "mstage s = MBody" "\<not> cancelled s"
  shows "loader_inv (load_object m (s\<lparr>mstage := MDone\<rparr>))"
proof -
  let ?s0 = "s\<lparr>mstage := MDone, oscene := Some m, req_count := 0, req_ended := False\<rparr>"
  let ?s2 = "load_texture_register m (load_mesh_register m ?s0)"
  from assms have t: "tasks s = []"
    by (auto simp: loader_inv_def)
  have "balance ?s2 = balance ?s0" by simp
  also have "\<dots> = 0" using t by (simp add: balance_def)
  finally have b: "balance ?s2 = 0" .
  show ?thesis
    using assms t b
    by (auto simp: loader_inv_def load_object_def Let_def postload_object_def success_callback_def
        prim_defs obs_defs)
qed

lemma inv_step:
  assumes "loader_inv s"
  shows "loader_inv (step e s)"
proof (cases e)
  case Cancel
  then show ?thesis using assms by (simp add: inv_cancel)
next
  case CancelReaction
  then show ?thesis using assms inv_cancel_reaction by simp
next
  case (ManifestJson m)
  then show ?thesis using assms
    by (simp add: manifest_json_def check_cancel_def inv_manifest_catch inv_load_object)
next
  case (MeshSettled k)
  then show ?thesis using assms
    by (auto simp: with_oscene_def mesh_settled_def inv_settle split: option.splits)
next
  case (ImageLoad k)
  then show ?thesis using assms
    by (auto simp: with_oscene_def image_onload_def inv_settle split: option.splits)
next
  case (ImageError k)
  then show ?thesis using assms
    by (auto simp: with_oscene_def image_onerror_def inv_settle split: option.splits)
qed (use assms in \<open>simp_all add: inv_manifest_response inv_manifest_catch inv_mesh_response
      inv_mesh_catch inv_mesh_buffer\<close>)

lemma inv_exec: "loader_inv s \<Longrightarrow> loader_inv (exec evs s)"
  by (induction evs arbitrary: s) (simp_all add: inv_step)


lemma loader_inv_reachable: "loader_inv (exec evs (SceneLoader me sc u opts))"
  by (simp add: inv_exec inv_SceneLoader)

lemma inv_callbacks_le: "loader_inv s \<Longrightarrow> length (callbacks s) \<le> 1"
  by (auto simp: loader_inv_def)


lemmas handler_defs = cancel_def cancel_callback_def success_callback_def fail_callback_def
  manifest_catch_def manifest_response_def manifest_json_def check_cancel_def
  mesh_catch_def mesh_response_def mesh_buffer_def mesh_settled_def image_onload_def
  image_onerror_def with_oscene_def postload_object_def postload_object_ifNoReq_def
  load_object_def

lemma callbacks_step: "\<exists>bs. callbacks (step e s) = callbacks s @ bs"
  by (cases e) (auto simp: handler_defs obs_defs prim_defs Let_def split: option.splits)

lemma inv_callbacks_stable:
  assumes "loader_inv s" "callbacks s \<noteq> []"
  shows "callbacks (step e s) = callbacks s"
proof -
  obtain bs where bs: "callbacks (step e s) = callbacks s @ bs"
    using callbacks_step by blast
  have "length (callbacks (step e s)) \<le> 1"
    using assms(1) by (intro inv_callbacks_le inv_step)
  with bs assms(2) show ?thesis
    by (cases "callbacks s") simp_all
qed

lemma inv_callbacks_stable_exec:
  "loader_inv s \<Longrightarrow> callbacks s \<noteq> [] \<Longrightarrow> callbacks (exec evs s) = callbacks s"
proof (induction evs arbitrary: s)
  case Nil
  then show ?case by simp
next
  case (Cons e evs)
  have "callbacks (step e s) = callbacks s"
    using Cons.prems by (rule inv_callbacks_stable)
  with Cons.IH [of "step e s"] Cons.prems show ?case
    by (simp add: inv_step)
qed

section \<open>Lemmas about events\<close>

lemma cancelled_frozen:
  assumes "cancelled s"
  shows "cancelled (step e s) \<and> references (step e s) = references s \<and>
         entities (scene (step e s)) = entities (scene s)"
  using assms
  by (cases e) (auto simp: handler_defs prim_defs Let_def split: option.splits)

lemma cancelled_frozen_exec:
  "cancelled s \<Longrightarrow>
   cancelled (exec evs s) \<and> references (exec evs s) = references s \<and>
   entities (scene (exec evs s)) = entities (scene s)"
proof (induction evs arbitrary: s)
  case Nil
  then show ?case by simp
next
  case (Cons e evs)
  from cancelled_frozen [OF Cons.prems, of e] Cons.IH [of "step e s"]
  show ?case by simp
qed

lemma cancel_fields:
  "cancelled (cancel s)"
  "references (cancel s) = references s"
  "entities (scene (cancel s)) = entities (scene s)"
  by (simp_all add: cancel_def prim_defs)

lemma getReference_setReference: "getReference (setReference k v s) k = Some v"
  by (simp add: getReference_def property_read_def setReference_def)



lemma self_step: "self (step e s) = self s"
  by (cases e) (auto simp: handler_defs prim_defs Let_def split: option.splits)

lemma self_exec: "self (exec evs s) = self s"
  by (induction evs arbitrary: s) (simp_all add: self_step)

lemma SceneLoader_fields:
  "self (SceneLoader me sc u opts) = me"
  "entities (scene (SceneLoader me sc u opts)) = entities sc"
  "loaders (scene (SceneLoader me sc u opts)) = insert me (loaders sc)"
  "mstage (SceneLoader me sc u opts) = MFetch"
  "cancelled (SceneLoader me sc u opts) = False"
  "finished (SceneLoader me sc u opts) = False"
  "microtasks (SceneLoader me sc u opts) = 0"
  "oscene (SceneLoader me sc u opts) = None"
  "tasks (SceneLoader me sc u opts) = []"
  "references (SceneLoader me sc u opts) = Map.empty"
  "callbacks (SceneLoader me sc u opts) = []"
  "callbacks_of (effects (SceneLoader me sc u opts)) = []"
  by (simp_all add: SceneLoader_def loadFile_def prim_defs obs_defs Let_def)

lemma inv_membership:
  "loader_inv s \<Longrightarrow> (self s \<in> loaders (scene s)) = (\<not> finished s \<and> \<not> cancelled s)"
  unfolding loader_inv_def by blast







section \<open>The completion callback\<close>



section \<open>The join of the requests\<close>



section \<open>Construction\<close>

text \<open>
  C3, as amended. The constructor issues the manifest fetch at once and registers the
  loader with the scene directly afterwards, before any reaction of that fetch has run.
  So \<open>cancel()\<close> can be called before the response is handled: the loader is then
  removed from the scene, whatever follows adds no entity, and the callback is invoked
  once, with \<open>false\<close>.
\<close>

theorem constructor_fetches_then_registers:
  "effects (SceneLoader me sc u opts) =
     [Fetch (tr_url (transform (SceneLoader me sc u opts) u SCENE))
        (make_fetch_params (transform (SceneLoader me sc u opts) u SCENE)),
      AddLoader me] \<and>
   me \<in> loaders (scene (SceneLoader me sc u opts)) \<and>
   mstage (SceneLoader me sc u opts) = MFetch \<and>
   callbacks (SceneLoader me sc u opts) = [] \<and>
   me \<notin> loaders (scene (exec (Cancel # evs) (SceneLoader me sc u opts))) \<and>
   entities (scene (exec (Cancel # evs) (SceneLoader me sc u opts))) = entities sc \<and>
   callbacks (exec (Cancel # CancelReaction # evs) (SceneLoader me sc u opts)) = [False]"
proof -
  let ?s = "SceneLoader me sc u opts"
  have a: "effects ?s =
     [Fetch (tr_url (transform ?s u SCENE)) (make_fetch_params (transform ?s u SCENE)),
      AddLoader me]"
    by (simp add: SceneLoader_def loadFile_def prim_defs Let_def)
  have c: "cancelled (exec evs (cancel ?s))"
    using cancelled_frozen_exec [of "cancel ?s" evs] by (simp add: cancel_fields)
  have "loader_inv (exec (Cancel # evs) ?s)"
    by (rule loader_inv_reachable)
  from inv_membership [OF this] c
  have b: "me \<notin> loaders (scene (exec (Cancel # evs) ?s))"
    by (simp add: self_exec SceneLoader_fields cancel_def prim_defs)
  have d: "entities (scene (exec (Cancel # evs) ?s)) = entities sc"
    using cancelled_frozen_exec [of "cancel ?s" evs]
    by (simp add: cancel_fields SceneLoader_fields)
  have "callbacks (step CancelReaction (cancel ?s)) = [False]"
    by (simp add: cancel_def cancel_callback_def SceneLoader_fields prim_defs obs_defs)
  moreover have "loader_inv (step CancelReaction (cancel ?s))"
    by (intro inv_step inv_cancel inv_SceneLoader)
  ultimately have e: "callbacks (exec (Cancel # CancelReaction # evs) ?s) = [False]"
    using inv_callbacks_stable_exec [of "step CancelReaction (cancel ?s)" evs]
    by (simp del: step.simps(2) add: )
  from a b d e show ?thesis
    by (simp add: SceneLoader_fields)
qed

text \<open>
  C3 as stated fails: in the constructor's log the fetch comes before the registration.
\<close>

theorem fetch_issued_before_registration:
  "\<not> registers_before_io (effects (SceneLoader 0 empty_scene ''scene.json'' no_options))"
  by (simp add: registers_before_io_def is_io_def is_registration_def SceneLoader_def
      loadFile_def prim_defs Let_def)

section \<open>Cancellation\<close>

text \<open>
  C5. Once \<open>cancel()\<close> has been called, no later event of the load writes to the
  reference table or appends an entity to the scene: after any sequence of events both
  are what they were when \<open>cancel()\<close> was called, and the loader stays cancelled.
\<close>

theorem no_writes_after_cancel:
  "references (exec evs (cancel s)) = references s \<and>
   entities (scene (exec evs (cancel s))) = entities (scene s) \<and>
   cancelled (exec evs (cancel s))"
  using cancelled_frozen_exec [of "cancel s" evs] by (simp add: cancel_fields)

text \<open>
  C6. \<open>cancel()\<close> is idempotent. A call on a loader that is not cancelled sets the
  flag, signals the abort controller, removes the loader from the scene and queues the
  reaction that reports the cancellation; the callback is not invoked inside \<open>cancel()\<close>
  but by that reaction (with \<open>false\<close>, when the loader has not finished). A second call,
  directly or after any events, leaves the state as it is.
\<close>

theorem cancel_idempotent:
  "cancel (cancel s) = cancel s \<and>
   step Cancel (exec evs (cancel s)) = exec evs (cancel s) \<and>
   (cancelled s \<longrightarrow> cancel s = s) \<and>
   (\<not> cancelled s \<longrightarrow>
      cancelled (cancel s) \<and> aborted (cancel s) \<and>
      self s \<notin> loaders (scene (cancel s)) \<and>
      microtasks (cancel s) = Suc (microtasks s) \<and>
      effects (cancel s) = effects s @ [Abort, RemoveLoader (self s), Microtask] \<and>
      callbacks (cancel s) = callbacks s \<and>
      (\<not> finished s \<longrightarrow> callbacks (step CancelReaction (cancel s)) = callbacks s @ [False]))"
proof -
  have "cancelled (exec evs (cancel s))"
    using cancelled_frozen_exec [of "cancel s" evs] by (simp add: cancel_fields)
  then have "step Cancel (exec evs (cancel s)) = exec evs (cancel s)"
    by (simp add: cancel_def)
  then show ?thesis
    by (simp add: cancel_def cancel_callback_def prim_defs obs_defs)
qed

theorem cancel_idempotent_witness:
  "\<not> cancelled example_loader \<and> \<not> finished example_loader \<and>
   cancelled (cancel example_loader) \<and>
   callbacks (step CancelReaction (cancel example_loader)) = [False] \<and>
   cancel (cancel example_loader) = cancel example_loader"
proof -
  have h: "\<not> cancelled example_loader" "\<not> finished example_loader" "callbacks example_loader = []"
    by code_simp+
  from cancel_idempotent [of example_loader "[]"] cancel_idempotent [of "cancel example_loader" "[]"]
  show ?thesis using h by (simp del: step.simps)
qed

section \<open>Registration with the scene\<close>



section \<open>Lookup of references\<close>

text \<open>
  C9. \<open>getReference\<close> is to return \<open>null\<close> for an identifier under which nothing is
  registered. On a loader that has registered nothing, the identifier \<open>toString\<close> yields
  the member that the reference table inherits from \<open>Object.prototype\<close>.
\<close>

theorem getReference_inherited_member:
  "getReference (SceneLoader 0 empty_scene ''scene.json'' no_options) ''toString'' =
   Some (Inherited ''toString'')"
  by (simp add: getReference_def property_read_def object_prototype_keys_def SceneLoader_def
      loadFile_def prim_defs Let_def)

section \<open>Lemmas about entity construction\<close>

lemma scene_prims [simp]:
  "scene (setReference i v s) = scene s" "scene (emit e s) = scene s"
  by (simp_all add: setReference_def emit_def)

lemma mesh_loop_scene [simp]: "scene (mesh_loop r s) = scene s"
  by (induction r arbitrary: s)
     (simp_all add: load_mesh_def load_mesh_binary_def Let_def)

lemma texture_loop_scene [simp]: "scene (texture_loop r s) = scene s"
  by (induction r arbitrary: s)
     (simp_all add: load_texture_def load_texture_image_def Let_def)

lemma registration_scene [simp]:
  "scene (load_mesh_register m s) = scene s"
  "scene (load_texture_register m s) = scene s"
  by (simp_all add: load_mesh_register_def load_texture_register_def split: option.splits)















section \<open>The entities of the scene\<close>




section \<open>Lemmas about requests\<close>

lemma prim_fields [simp]:
  "tasks (setReference i v s) = tasks s" "tasks (emit e s) = tasks s"
  "mstage (setReference i v s) = mstage s" "mstage (emit e s) = mstage s"
  "references (emit e s) = references s"
  "references (setReference i v s) = (references s)(i \<mapsto> v)"
  "req_count (emit e s) = req_count s" "req_count (setReference i v s) = req_count s"
  by (simp_all add: setReference_def emit_def)













section \<open>Failure of a sub-resource\<close>




section \<open>Lemmas about the stored manifest\<close>

lemma load_mesh_ignored: "ignored_mesh (snd p) \<Longrightarrow> load_mesh p s = s"
  by (simp add: load_mesh_def ignored_mesh_def Let_def)

lemma load_texture_ignored: "ignored_texture (snd p) \<Longrightarrow> load_texture p s = s"
  by (simp add: load_texture_def ignored_texture_def Let_def)

lemma mesh_loop_filter: "mesh_loop (filter (\<lambda>p. \<not> ignored_mesh (snd p)) r) s = mesh_loop r s"
  by (induction r arbitrary: s) (simp_all add: load_mesh_ignored)

lemma texture_loop_filter:
  "texture_loop (filter (\<lambda>p. \<not> ignored_texture (snd p)) r) s = texture_loop r s"
  by (induction r arbitrary: s) (simp_all add: load_texture_ignored)

lemma oscene_outward [simp]:
  "self_update f0 (oscene_update g s) = oscene_update g (self_update f0 s)"
  "scene_update f1 (oscene_update g s) = oscene_update g (scene_update f1 s)"
  "references_update f2 (oscene_update g s) = oscene_update g (references_update f2 s)"
  "cancelled_update f3 (oscene_update g s) = oscene_update g (cancelled_update f3 s)"
  "finished_update f4 (oscene_update g s) = oscene_update g (finished_update f4 s)"
  "aborted_update f5 (oscene_update g s) = oscene_update g (aborted_update f5 s)"
  "mstage_update f6 (oscene_update g s) = oscene_update g (mstage_update f6 s)"
  "req_count_update f7 (oscene_update g s) = oscene_update g (req_count_update f7 s)"
  "req_ended_update f8 (oscene_update g s) = oscene_update g (req_ended_update f8 s)"
  "tasks_update f9 (oscene_update g s) = oscene_update g (tasks_update f9 s)"
  "microtasks_update fa (oscene_update g s) = oscene_update g (microtasks_update fa s)"
  "effects_update fb (oscene_update g s) = oscene_update g (effects_update fb s)"
  by (cases s; simp)+

lemma load_mesh_oscene: "load_mesh p (s\<lparr>oscene := x\<rparr>) = (load_mesh p s)\<lparr>oscene := x\<rparr>"
  by (simp add: load_mesh_def load_mesh_binary_def prim_defs Let_def)

lemma mesh_loop_oscene: "mesh_loop r (s\<lparr>oscene := x\<rparr>) = (mesh_loop r s)\<lparr>oscene := x\<rparr>"
  by (induction r arbitrary: s) (simp_all add: load_mesh_oscene)

lemma load_texture_oscene: "load_texture p (s\<lparr>oscene := x\<rparr>) = (load_texture p s)\<lparr>oscene := x\<rparr>"
  by (simp add: load_texture_def load_texture_image_def prim_defs Let_def)

lemma texture_loop_oscene: "texture_loop r (s\<lparr>oscene := x\<rparr>) = (texture_loop r s)\<lparr>oscene := x\<rparr>"
  by (induction r arbitrary: s) (simp_all add: load_texture_oscene)

lemma load_entity_oscene: "load_entity d (s\<lparr>oscene := x\<rparr>) = (load_entity d s)\<lparr>oscene := x\<rparr>"
  by (simp add: load_entity_def prim_defs Let_def split: option.splits)

lemma entity_loop_oscene: "entity_loop l (s\<lparr>oscene := x\<rparr>) = (entity_loop l s)\<lparr>oscene := x\<rparr>"
  by (induction l arbitrary: s) (simp_all add: load_entity_oscene)

lemma registration_oscene:
  "load_mesh_register m (s\<lparr>oscene := x\<rparr>) = (load_mesh_register m s)\<lparr>oscene := x\<rparr>"
  "load_texture_register m (s\<lparr>oscene := x\<rparr>) = (load_texture_register m s)\<lparr>oscene := x\<rparr>"
  "load_entity_list m (s\<lparr>oscene := x\<rparr>) = (load_entity_list m s)\<lparr>oscene := x\<rparr>"
  by (simp_all add: load_mesh_register_def load_texture_register_def load_entity_list_def
      mesh_loop_oscene texture_loop_oscene entity_loop_oscene split: option.splits)

lemma registration_strip:
  "load_mesh_register (strip m) s = load_mesh_register m s"
  "load_texture_register (strip m) s = load_texture_register m s"
  "load_entity_list (strip m) s = load_entity_list m s"
  by (simp_all add: load_mesh_register_def load_texture_register_def load_entity_list_def
      strip_def mesh_loop_filter texture_loop_filter split: option.splits)

lemma postload_oscene:
  "postload_object m (s\<lparr>oscene := x\<rparr>) = (postload_object m s)\<lparr>oscene := x\<rparr>"
  by (simp add: postload_object_def success_callback_def prim_defs registration_oscene)

lemma postload_strip: "postload_object (strip m) s = postload_object m s"
  by (simp add: postload_object_def registration_strip)

lemma postload_ifNoReq_oscene:
  "postload_object_ifNoReq m (s\<lparr>oscene := x\<rparr>) = (postload_object_ifNoReq m s)\<lparr>oscene := x\<rparr>"
  by (simp add: postload_object_ifNoReq_def Let_def postload_oscene)

lemma postload_ifNoReq_strip: "postload_object_ifNoReq (strip m) s = postload_object_ifNoReq m s"
  by (simp add: postload_object_ifNoReq_def Let_def postload_strip)

lemma load_object_strip:
  "load_object (strip m) s = (load_object m s)\<lparr>oscene := Some (strip m)\<rparr>"
  by (simp add: load_object_def Let_def registration_strip registration_oscene postload_strip
      postload_oscene)


lemma load_object_oscene: "load_object m (s\<lparr>oscene := x\<rparr>) = load_object m s"
  by (simp add: load_object_def Let_def)

lemma oscene_load_object: "oscene (load_object m s) = Some m"
  by (simp add: load_object_def Let_def postload_object_def success_callback_def prim_defs)

lemma oscene_postload: "oscene (postload_object_ifNoReq m s) = oscene s"
  by (simp add: postload_object_ifNoReq_def postload_object_def success_callback_def
      prim_defs Let_def)

lemma set_stage_oscene: "set_stage k st (s\<lparr>oscene := x\<rparr>) = (set_stage k st s)\<lparr>oscene := x\<rparr>"
  by (simp add: set_stage_def)

lemma stage_at_oscene [simp]: "stage_at (s\<lparr>oscene := x\<rparr>) k = stage_at s k"
  by (simp add: stage_at_def)

lemma forget_step: "step (strip_event e) (forget s) = forget (step e s)"
proof (cases e)
  case (ManifestJson m)
  then show ?thesis
    by (simp add: strip_event_def forget_def manifest_json_def manifest_catch_def
        fail_callback_def check_cancel_def prim_defs load_object_oscene load_object_strip
        oscene_load_object)
next
  case (MeshSettled k)
  then show ?thesis
    by (cases "oscene s")
       (simp_all add: strip_event_def forget_def with_oscene_def mesh_settled_def
         set_stage_oscene postload_ifNoReq_oscene postload_ifNoReq_strip oscene_postload)
next
  case (ImageLoad k)
  then show ?thesis
    by (cases "oscene s")
       (simp_all add: strip_event_def forget_def with_oscene_def image_onload_def
         set_stage_oscene postload_ifNoReq_oscene postload_ifNoReq_strip oscene_postload
         setReference_def)
next
  case (ImageError k)
  then show ?thesis
    by (cases "oscene s")
       (simp_all add: strip_event_def forget_def with_oscene_def image_onerror_def
         set_stage_oscene postload_ifNoReq_oscene postload_ifNoReq_strip oscene_postload
         emit_def)
qed (simp_all add: strip_event_def forget_def cancel_def cancel_callback_def
      manifest_response_def manifest_catch_def fail_callback_def check_cancel_def
      mesh_response_def mesh_catch_def mesh_buffer_def set_stage_oscene prim_defs)

lemma forget_exec: "exec (map strip_event evs) (forget s) = forget (exec evs s)"
  by (induction evs arbitrary: s) (simp_all add: forget_step)

lemma forget_SceneLoader: "forget (SceneLoader me sc u opts) = SceneLoader me sc u opts"
  by (simp add: forget_def SceneLoader_def loadFile_def prim_defs Let_def)

section \<open>Entries without a source\<close>

text \<open>
  C10. A mesh entry with neither \<open>binary\<close> nor \<open>vertices\<close> and a texture entry
  without \<open>image\<close> are passed over: the loop body leaves the whole state of the loader
  as it is (no write to the reference table, no increment of the counter, no request), so
  registration gives the same state with and without them; and for every sequence of
  events, the load of a manifest and the load of the manifest without these entries
  end in the same state (reference table, counter, requests, scene, log of calls and
  callbacks), up to the manifest that is stored.
\<close>

theorem ignored_entries_have_no_effect:
  "(m_binary mesh = None \<and> m_vertices mesh = None \<longrightarrow> ignored_mesh mesh) \<and>
   (t_image texture = None \<longrightarrow> ignored_texture texture) \<and>
   (ignored_mesh mesh \<longrightarrow> load_mesh (i, mesh) s = s) \<and>
   (ignored_texture texture \<longrightarrow> load_texture (i, texture) s = s) \<and>
   load_mesh_register (strip m) s = load_mesh_register m s \<and>
   load_texture_register (strip m) s = load_texture_register m s \<and>
   exec (map strip_event evs) (SceneLoader me sc u opts) =
     (exec evs (SceneLoader me sc u opts))
       \<lparr>oscene := map_option strip (oscene (exec evs (SceneLoader me sc u opts)))\<rparr>"
proof -
  have "exec (map strip_event evs) (SceneLoader me sc u opts) =
        forget (exec evs (SceneLoader me sc u opts))"
    using forget_exec [of evs "SceneLoader me sc u opts"] by (simp add: forget_SceneLoader)
  then show ?thesis
    by (simp add: forget_def load_mesh_ignored load_texture_ignored registration_strip
        ignored_mesh_def ignored_texture_def truthy_def)
qed


theorem ignored_entries_have_no_effect_witness:
  "m_binary \<lparr>m_binary = None, m_vertices = None\<rparr> = None \<and>
   m_vertices \<lparr>m_binary = None, m_vertices = None\<rparr> = None \<and>
   ignored_mesh \<lparr>m_binary = None, m_vertices = None\<rparr> \<and>
   load_mesh (''m0'', \<lparr>m_binary = None, m_vertices = None\<rparr>) example_loader = example_loader \<and>
   t_image \<lparr>t_image = None\<rparr> = None \<and>
   ignored_texture \<lparr>t_image = None\<rparr> \<and>
   load_texture (''t0'', \<lparr>t_image = None\<rparr>) example_loader = example_loader"
  using ignored_entries_have_no_effect
          [of "\<lparr>m_binary = None, m_vertices = None\<rparr>" "\<lparr>t_image = None\<rparr>" "''m0''"
              example_loader empty_manifest "[]" 0 empty_scene "''scene.json''" no_options]
        ignored_entries_have_no_effect
          [of "\<lparr>m_binary = None, m_vertices = None\<rparr>" "\<lparr>t_image = None\<rparr>" "''t0''"
              example_loader empty_manifest "[]" 0 empty_scene "''scene.json''" no_options]
  by simp

end
